theory Spec2Isabelle
  imports Main
begin

section \<open>The declaration language\<close>

text \<open>
  The repository holds ambient type declarations and one type-expectation test. The
  declarations are embedded as data: a type of the declaration language is a value of
  \<open>ty\<close>, an interface is a record of its name, its heritage clause and the members it
  declares itself. A member is a triple of its name, its optionality (\<open>name?:\<close>) and
  its declared type. A type alias is a HOL constant (a generic alias a HOL function).

  A function type has its parameters (each a name, its optionality and its type), the
  element type of its rest parameter if it has one, and its result type. \<open>TInter\<close> is
  an intersection, and \<open>TIndexed p v\<close> the object type with the one index signature
  \<^verbatim>\<open>[key: `p${string}`]: v\<close>. \<open>TRef\<close> is a reference by name to a class or to a type
  declared outside the files at hand (\<open>React.ReactElement\<close>, \<open>Base.Selector<T>\<close>);
  nothing is known of such a type but its name and arguments.
\<close>

datatype prim = PNumber | PString | PBoolean | PUndefined | PVoid | PLit string

datatype ty =
    TAny
  | TPrim prim
  | TUnion "ty list"
  | TInter "ty list"
  | TFun "(string \<times> bool \<times> ty) list" "ty option" ty
  | TObj "(string \<times> bool \<times> ty) list"
  | TIndexed string ty
  | TRef string "ty list"

abbreviation TNumber :: ty where "TNumber \<equiv> TPrim PNumber"

abbreviation TString :: ty where "TString \<equiv> TPrim PString"

abbreviation TBoolean :: ty where "TBoolean \<equiv> TPrim PBoolean"

abbreviation TUndefined :: ty where "TUndefined \<equiv> TPrim PUndefined"

abbreviation TVoid :: ty where "TVoid \<equiv> TPrim PVoid"

abbreviation TLit :: "string \<Rightarrow> ty" where "TLit l \<equiv> TPrim (PLit l)"

type_synonym member = "string \<times> bool \<times> ty"

record interface =
  iname :: string
  iextends :: "ty list"
  imembers :: "member list"

record component_class =
  cname :: string
  csuper :: ty

definition required :: "string \<Rightarrow> ty \<Rightarrow> member" where
  "required n t = (n, False, t)"

definition optional :: "string \<Rightarrow> ty \<Rightarrow> member" where
  "optional n t = (n, True, t)"

definition is_optional :: "member \<Rightarrow> bool" where
  "is_optional m = fst (snd m)"


text \<open>
  The members of an interface: the ones it declares, then the inherited ones it does
  not redeclare. \<open>base\<close> resolves a type of the heritage clause to its members; the
  bases of the interfaces at hand (\<open>React.ClassAttributes\<close>, \<open>React.HTMLAttributes\<close>,
  \<open>Base.Selector\<close> ...) are declared outside the files at hand, so \<open>base\<close> is a
  parameter.
\<close>

definition all_members :: "(ty \<Rightarrow> member list) \<Rightarrow> interface \<Rightarrow> member list" where
  "all_members base i =
     imembers i @
     filter (\<lambda>m. fst m \<notin> set (map fst (imembers i))) (concat (map base (iextends i)))"

section \<open>Assignability\<close>

text \<open>
  The assignability relation of the type checker under \<open>strict\<close>, on the types above:
  \<open>assignable R S T\<close> holds when a value of type \<open>S\<close> is accepted where \<open>T\<close> is
  declared.
  \<^item> \<open>any\<close> is assignable to and from every type;
  \<^item> a union source is assignable when each constituent is, a union target when the
    source is assignable to one constituent, an intersection target when the source is
    assignable to each constituent;
  \<^item> a string literal type is assignable to \<open>string\<close>; \<open>undefined\<close> is assignable
    to \<open>void\<close>;
  \<^item> a function type is assignable to a function type when the target has a rest
    parameter or at least as many parameters as the source requires, at each position
    where both have a parameter the target's parameter type is assignable to the
    source's (\<open>strictFunctionTypes\<close>: the callbacks at hand are function-typed
    properties; the type of an optional parameter includes \<open>undefined\<close>; past its
    parameters a function with a rest parameter has the rest element type), and the
    result is assignable, or the target result is \<open>void\<close>;
  \<^item> an object type is assignable to an object type when it has every required member
    of the target, and each member it shares with the target has an assignable type;
    an optional member of the target accepts \<open>undefined\<close> too, and an optional member of
    the source does not stand for a required one; moreover, when the target has
    members and all of them are optional (a weak type), the source is empty or shares
    a member with the target;
  \<^item> an object type is assignable to an index signature when every member whose name
    matches the key has a type assignable to the signature's value type;
  \<^item> \<open>undefined\<close> and \<open>void\<close> are not assignable to an object type, and no primitive is
    assignable to a function type, nor a function or object type to a primitive, nor an
    object type to a function type.

  Where a type declared outside the files at hand is involved, the relation is not
  determined by the files at hand: there, and for an intersection or an
  index-signature type as the source and a primitive or function type against an
  object type (which go by the members that the standard library gives primitives and
  functions), the relation defers to the parameter \<open>R\<close>. A statement about
  \<open>assignable\<close> is proved for every \<open>R\<close>.

  Union types are flat, as the checker normalises them. The relation is the type
  relation of values of the given types; the further diagnostic for the properties
  that an object literal writes beyond the declared ones is not part of it.
\<close>

fun without_undefined :: "ty \<Rightarrow> ty" where
  "without_undefined (TUnion ss) = TUnion (filter (\<lambda>s. s \<noteq> TUndefined) ss)"
| "without_undefined S = S"

definition param_type :: "member \<Rightarrow> ty" where
  "param_type p = (if is_optional p then TUnion [snd (snd p), TUndefined] else snd (snd p))"

definition min_args :: "member list \<Rightarrow> nat" where
  "min_args ps = length (dropWhile is_optional (rev ps))"

definition param_count :: "member list \<Rightarrow> ty option \<Rightarrow> nat" where
  "param_count ps rest = length ps + (case rest of None \<Rightarrow> 0 | Some r \<Rightarrow> 1)"

definition positions :: "nat \<Rightarrow> member list \<Rightarrow> ty option \<Rightarrow> ty list" where
  "positions n ps rest =
     take n (map param_type ps @ (case rest of None \<Rightarrow> [] | Some r \<Rightarrow> replicate n r))"

definition weak_type :: "member list \<Rightarrow> bool" where
  "weak_type ns = (ns \<noteq> [] \<and> list_all is_optional ns)"

definition common_property :: "member list \<Rightarrow> member list \<Rightarrow> bool" where
  "common_property ms ns = list_ex (\<lambda>m. fst m \<in> set (map fst ns)) ms"

fun prim_assignable :: "prim \<Rightarrow> prim \<Rightarrow> bool" where
  "prim_assignable PNumber PNumber = True"
| "prim_assignable PString PString = True"
| "prim_assignable (PLit l) PString = True"
| "prim_assignable (PLit l) (PLit l') = (l = l')"
| "prim_assignable PBoolean PBoolean = True"
| "prim_assignable PUndefined PUndefined = True"
| "prim_assignable PUndefined PVoid = True"
| "prim_assignable PVoid PVoid = True"
| "prim_assignable _ _ = False"

definition nullish :: "prim \<Rightarrow> bool" where
  "nullish a = (a = PUndefined \<or> a = PVoid)"

function (sequential) assignable :: "(ty \<Rightarrow> ty \<Rightarrow> bool) \<Rightarrow> ty \<Rightarrow> ty \<Rightarrow> bool" where
  "assignable R TAny T = True"
| "assignable R S TAny = True"
| "assignable R (TUnion ss) T = (\<forall>s \<in> set ss. assignable R s T)"
| "assignable R S (TUnion ts) = (\<exists>t \<in> set ts. assignable R S t)"
| "assignable R S (TInter ts) = (\<forall>t \<in> set ts. assignable R S t)"
| "assignable R (TInter ss) T = ((\<exists>s \<in> set ss. assignable R s T) \<or> R (TInter ss) T)"
| "assignable R (TRef n as) T = R (TRef n as) T"
| "assignable R S (TRef n as) = R S (TRef n as)"
| "assignable R (TIndexed p v) T = R (TIndexed p v) T"
| "assignable R (TPrim a) (TPrim b) = prim_assignable a b"
| "assignable R (TFun ps rs r) (TFun qs rt u) =
     ((rt \<noteq> None \<or> min_args ps \<le> length qs)
      \<and> (\<forall>(s, t) \<in> set (zip (positions (max (param_count ps rs) (param_count qs rt)) ps rs)
                             (positions (max (param_count ps rs) (param_count qs rt)) qs rt)).
            assignable R t s)
      \<and> (u = TVoid \<or> assignable R r u))"
| "assignable R (TObj ms) (TObj ns) =
     ((weak_type ns \<longrightarrow> ms = [] \<or> common_property ms ns)
      \<and> (\<forall>(n, opt, t) \<in> set ns.
            case map_of ms n of
              None \<Rightarrow> opt
            | Some (opt', s) \<Rightarrow>
                (opt' \<longrightarrow> opt)
                \<and> ((opt \<and> s = TUndefined)
                   \<or> assignable R (if opt then without_undefined s else s) t)))"
| "assignable R (TObj ms) (TIndexed p v) =
     (\<forall>(n, opt, s) \<in> set ms. take (length p) n = p \<longrightarrow> assignable R s v)"
| "assignable R (TPrim a) (TObj ns) = (\<not> nullish a \<and> R (TPrim a) (TObj ns))"
| "assignable R (TPrim a) (TIndexed p v) = (\<not> nullish a \<and> R (TPrim a) (TIndexed p v))"
| "assignable R (TFun ps rs r) (TObj ns) = R (TFun ps rs r) (TObj ns)"
| "assignable R (TFun ps rs r) (TIndexed p v) = R (TFun ps rs r) (TIndexed p v)"
| "assignable R _ _ = False"
  by pat_completeness auto

lemma size_list_filter_le: "size_list f (filter P xs) \<le> size_list f xs"
  by (induction xs) auto

lemma size_without_undefined: "size (without_undefined s) \<le> size s"
  by (cases s) (simp_all add: size_list_filter_le)

lemma size_member: "(n, opt, t) \<in> set ms \<Longrightarrow> size t < size (TObj ms)"
  by (induction ms) auto

lemma size_map_of: "map_of ms n = Some (opt, s) \<Longrightarrow> size s < size (TObj ms)"
  by (drule map_of_SomeD) (rule size_member)

lemma size_constituent: "s \<in> set ss \<Longrightarrow> size s < size (TUnion ss)"
  by (induction ss) auto

lemma size_conjunct: "s \<in> set ss \<Longrightarrow> size s < size (TInter ss)"
  by (induction ss) auto

lemma size_param_type: "p \<in> set ps \<Longrightarrow> size (param_type p) < size (TFun ps rest r)"
  by (induction ps) (auto simp add: param_type_def)

lemma size_position: "x \<in> set (positions n ps rest) \<Longrightarrow> size x < size (TFun ps rest r)"
proof -
  assume "x \<in> set (positions n ps rest)"
  then have "x \<in> set (map param_type ps) \<or> rest = Some x"
    by (auto simp add: positions_def dest!: in_set_takeD split: option.splits)
  then show ?thesis
    using size_param_type[of _ ps rest r] by auto
qed

lemma size_positions:
  assumes "(s, t) \<in> set (zip (positions n ps rs) (positions m qs rt))"
  shows "size t + size s < size (TFun ps rs r) + size (TFun qs rt u)"
  using size_position[of s n ps rs r] size_position[of t m qs rt u] assms
  by (fastforce dest: set_zip_leftD set_zip_rightD)

lemma size_indexed_member:
  "(n, opt, s) \<in> set ms \<Longrightarrow> size s + size v < size (TObj ms) + size (TIndexed p v)"
  using size_member[of n opt s ms] by simp

lemma size_result: "size r + size u < size (TFun ps rs r) + size (TFun qs rt u)"
  by simp

lemma size_property:
  assumes "(n, opt, t) \<in> set ns" and "map_of ms n = Some (opt', s)"
  shows "size (if opt then without_undefined s else s) + size t < size (TObj ms) + size (TObj ns)"
proof -
  have "size (if opt then without_undefined s else s) \<le> size s"
    using size_without_undefined[of s] by simp
  moreover have "size s < size (TObj ms)" using assms(2) by (rule size_map_of)
  moreover have "size t < size (TObj ns)" using assms(1) by (rule size_member)
  ultimately show ?thesis by linarith
qed

termination assignable
  apply (relation "measure (\<lambda>(R, S, T). size S + size T)")
   apply (auto simp del: ty.size
      intro: size_property[where opt = True, simplified]
        size_property[where opt = False, simplified]
        size_positions size_indexed_member size_result
      dest: size_constituent size_conjunct)
  done

text \<open>
  The check of a supplied value's type \<open>s\<close> against a member declared with type \<open>t\<close>
  (\<open>opt\<close>: the member is optional), and of one member of the target object type against
  the source's members \<open>c\<close>: the source provides the member as the target requires it.
\<close>

definition value_fits :: "(ty \<Rightarrow> ty \<Rightarrow> bool) \<Rightarrow> bool \<Rightarrow> ty \<Rightarrow> ty \<Rightarrow> bool" where
  "value_fits R opt s t =
     ((opt \<and> s = TUndefined) \<or> assignable R (if opt then without_undefined s else s) t)"

definition member_ok :: "(ty \<Rightarrow> ty \<Rightarrow> bool) \<Rightarrow> member list \<Rightarrow> member \<Rightarrow> bool" where
  "member_ok R c m =
     (case m of (n, opt, t) \<Rightarrow>
        (case map_of c n of
           None \<Rightarrow> opt
         | Some (opt', s) \<Rightarrow> (opt' \<longrightarrow> opt) \<and> value_fits R opt s t))"

text \<open>
  A type with the members \<open>c\<close> satisfies an interface when the object type of \<open>c\<close> is
  assignable to the object type of the interface's members. A props object is accepted
  for a properties interface in the same sense.
\<close>

definition satisfies ::
  "(ty \<Rightarrow> ty \<Rightarrow> bool) \<Rightarrow> (ty \<Rightarrow> member list) \<Rightarrow> member list \<Rightarrow> interface \<Rightarrow> bool" where
  "satisfies R base c i = assignable R (TObj c) (TObj (all_members base i))"

text \<open>
  The names an object type supplies (its members that are not optional), and the check
  that every member it shares with the declared ones has a fitting type.
\<close>

definition supplied_names :: "member list \<Rightarrow> string list" where
  "supplied_names props = map fst (filter (\<lambda>m. \<not> is_optional m) props)"







section \<open>The scripting-platform fragment (namespace GoogleAdsScripts.AdsApp)\<close>

definition AccountSnippet :: interface where
  "AccountSnippet =
     \<lparr>iname = ''AccountSnippet'', iextends = [TRef ''Snippet'' []], imembers = []\<rparr>"

definition AccountSnippetIterator :: interface where
  "AccountSnippetIterator =
     \<lparr>iname = ''AccountSnippetIterator'',
      iextends = [TRef ''Base.Iterator'' [TRef ''AccountSnippet'' []]],
      imembers = []\<rparr>"

definition AccountSnippetSelector :: interface where
  "AccountSnippetSelector =
     \<lparr>iname = ''AccountSnippetSelector'',
      iextends =
        [TRef ''Base.Selector'' [TRef ''AccountSnippetIterator'' []],
         TRef ''Base.SelectorForDateRange'' [],
         TRef ''Base.SelectorOrderBy'' [],
         TRef ''Base.SelectorWithCondition'' [],
         TRef ''Base.SelectorWithLimit'' []],
      imembers = []\<rparr>"

definition AdsApp :: "interface list" where
  "AdsApp = [AccountSnippet, AccountSnippetIterator, AccountSnippetSelector]"

section \<open>The data-grid declarations (module fixed-data-table-2)\<close>

text \<open>
  The interfaces and classes of the module, in the words of the declaration file. An
  interface that a member's type refers to by name stands there as the object type of
  its members (\<open>object_type\<close>); the heritage of ColumnCellProps is resolved inside the
  module by \<open>local_base\<close>.
\<close>

definition RowProps :: interface where
  "RowProps =
     \<lparr>iname = ''RowProps'',
      iextends = [],
      imembers =
        [required ''rowIndex'' TNumber,
         required ''height'' TNumber,
         required ''width'' TNumber]\<rparr>"

definition ColumnReorderEndEvent :: interface where
  "ColumnReorderEndEvent =
     \<lparr>iname = ''ColumnReorderEndEvent'',
      iextends = [],
      imembers =
        [optional ''columnBefore'' (TUnion [TString, TUndefined]),
         optional ''columnAfter'' (TUnion [TString, TUndefined]),
         required ''reorderColumn'' TString]\<rparr>"

definition ColumnHeaderProps :: interface where
  "ColumnHeaderProps =
     \<lparr>iname = ''ColumnHeaderProps'',
      iextends = [],
      imembers =
        [optional ''columnKey'' (TUnion [TString, TUndefined]),
         required ''height'' TNumber,
         required ''width'' TNumber]\<rparr>"

definition ColumnGroupHeaderProps :: interface where
  "ColumnGroupHeaderProps =
     \<lparr>iname = ''ColumnGroupHeaderProps'',
      iextends = [],
      imembers =
        [required ''height'' TNumber,
         required ''width'' TNumber]\<rparr>"

definition local_base :: "ty \<Rightarrow> member list" where
  "local_base T = (if T = TRef ''ColumnHeaderProps'' [] then imembers ColumnHeaderProps else [])"

definition object_type :: "interface \<Rightarrow> ty" where
  "object_type i = TObj (all_members local_base i)"

definition ColumnCellProps :: interface where
  "ColumnCellProps =
     \<lparr>iname = ''ColumnCellProps'',
      iextends = [TRef ''ColumnHeaderProps'' []],
      imembers =
        [required ''rowIndex'' TNumber]\<rparr>"

text \<open>
  \<^verbatim>\<open>type ElementOrFunc<P> =
     string | React.ReactElement | ((props: P) => string | React.ReactElement)\<close>
\<close>

definition ElementOrFunc :: "ty \<Rightarrow> ty" where
  "ElementOrFunc P =
     TUnion [TString, TRef ''React.ReactElement'' [],
       TFun [required ''props'' P] None (TUnion [TString, TRef ''React.ReactElement'' []])]"

text \<open>
  \<^verbatim>\<open>type TableRowEventHandler =
     (event: React.SyntheticEvent<Table>, rowIndex: number) => void\<close>
\<close>

definition TableRowEventHandler :: ty where
  "TableRowEventHandler =
     TFun [required ''event'' (TRef ''React.SyntheticEvent'' [TRef ''Table'' []]),
           required ''rowIndex'' TNumber]
       None TVoid"

text \<open>
  \<^verbatim>\<open>type AttributesGetterReturn =
     & React.HTMLAttributes<HTMLElement>
     & { [key: `data-${string}`]: string | undefined }\<close>
\<close>

definition AttributesGetterReturn :: ty where
  "AttributesGetterReturn =
     TInter [TRef ''React.HTMLAttributes'' [TRef ''HTMLElement'' []],
             TIndexed ''data-'' (TUnion [TString, TUndefined])]"

definition TableProps :: interface where
  "TableProps =
     \<lparr>iname = ''TableProps'',
      iextends = [TRef ''React.ClassAttributes'' [TRef ''Table'' []]],
      imembers =
        [optional ''children'' (TRef ''React.ReactNode'' []),
         required ''width'' TNumber,
         optional ''height'' (TUnion [TNumber, TUndefined]),
         optional ''className'' (TUnion [TString, TUndefined]),
         optional ''maxHeight'' (TUnion [TNumber, TUndefined]),
         optional ''ownerHeight'' (TUnion [TNumber, TUndefined]),
         optional ''overflowX'' (TUnion [TLit ''hidden'', TLit ''auto'', TUndefined]),
         optional ''overflowY'' (TUnion [TLit ''hidden'', TLit ''auto'', TUndefined]),
         optional ''touchScrollEnabled'' (TUnion [TBoolean, TUndefined]),
         optional ''keyboardScrollEnabled'' (TUnion [TBoolean, TUndefined]),
         optional ''keyboardPageEnabled'' (TUnion [TBoolean, TUndefined]),
         optional ''showScrollbarX'' (TUnion [TBoolean, TUndefined]),
         optional ''showScrollbarY'' (TUnion [TBoolean, TUndefined]),
         optional ''onHorizontalScroll'' (TUnion [TFun [required ''scrollPos'' TNumber] None TBoolean, TUndefined]),
         optional ''onVerticalScroll'' (TUnion [TFun [required ''scrollPos'' TNumber] None TBoolean, TUndefined]),
         required ''rowsCount'' TNumber,
         required ''rowHeight'' TNumber,
         optional ''rowHeightGetter'' (TUnion [TFun [required ''index'' TNumber] None TNumber,
             TUndefined]),
         optional ''subRowHeight'' (TUnion [TNumber, TUndefined]),
         optional ''subRowHeightGetter'' (TUnion [TFun [required ''index'' TNumber] None TNumber, TUndefined]),
         optional ''rowExpanded'' (TUnion [ElementOrFunc (object_type RowProps), TUndefined]),
         optional ''rowAttributesGetter'' (TUnion [TFun [required ''index'' TNumber] None AttributesGetterReturn, TUndefined]),
         optional ''rowClassNameGetter'' (TUnion [TFun [required ''index'' TNumber] None TString, TUndefined]),
         optional ''rowKeyGetter'' (TUnion [TFun [required ''index'' TNumber] None TString,
             TUndefined]),
         optional ''gridAttributesGetter'' (TUnion [TFun [] None AttributesGetterReturn,
             TUndefined]),
         optional ''groupHeaderHeight'' (TUnion [TNumber, TUndefined]),
         required ''headerHeight'' TNumber,
         optional ''cellGroupWrapperHeight'' (TUnion [TNumber, TUndefined]),
         optional ''footerHeight'' (TUnion [TNumber, TUndefined]),
         optional ''scrollLeft'' (TUnion [TNumber, TUndefined]),
         optional ''scrollToColumn'' (TUnion [TNumber, TUndefined]),
         optional ''scrollTop'' (TUnion [TNumber, TUndefined]),
         optional ''scrollToRow'' (TUnion [TNumber, TUndefined]),
         optional ''onScrollStart'' (TUnion [TFun [required ''x'' TNumber,
             required ''y'' TNumber, required ''firstRowIndex'' TNumber,
                 required ''lastRowIndex'' TNumber] None TVoid, TUndefined]),
         optional ''onScrollEnd'' (TUnion [TFun [required ''x'' TNumber,
             required ''y'' TNumber, required ''firstRowIndex'' TNumber,
                 required ''lastRowIndex'' TNumber] None TVoid, TUndefined]),
         optional ''stopScrollPropagation'' (TUnion [TBoolean, TUndefined]),
         optional ''onContentHeightChange'' (TUnion [TFun [required ''newHeight'' TNumber] None TVoid, TUndefined]),
         optional ''onRowClick'' (TUnion [TableRowEventHandler, TUndefined]),
         optional ''onRowContextMenu'' (TUnion [TableRowEventHandler, TUndefined]),
         optional ''onRowDoubleClick'' (TUnion [TableRowEventHandler, TUndefined]),
         optional ''onRowMouseDown'' (TUnion [TableRowEventHandler, TUndefined]),
         optional ''onRowMouseUp'' (TUnion [TableRowEventHandler, TUndefined]),
         optional ''onRowMouseEnter'' (TUnion [TableRowEventHandler, TUndefined]),
         optional ''onRowMouseLeave'' (TUnion [TableRowEventHandler, TUndefined]),
         optional ''onRowTouchStart'' (TUnion [TableRowEventHandler, TUndefined]),
         optional ''onRowTouchEnd'' (TUnion [TableRowEventHandler, TUndefined]),
         optional ''onRowTouchMove'' (TUnion [TableRowEventHandler, TUndefined]),
         optional ''onColumnResizeEndCallback'' (TUnion [TFun [required ''newColumnWidth'' TNumber, required ''columnKey'' TString] None TVoid, TUndefined]),
         optional ''onColumnReorderEndCallback'' (TUnion [TFun [required ''event'' (object_type ColumnReorderEndEvent)] None TVoid, TUndefined]),
         optional ''isColumnResizing'' (TUnion [TBoolean, TUndefined]),
         optional ''isColumnReordering'' (TUnion [TBoolean, TUndefined]),
         optional ''bufferRowCount'' (TUnion [TNumber, TUndefined])]\<rparr>"

definition Table :: component_class where
  "Table = \<lparr>cname = ''Table'',
      csuper = TRef ''React.Component'' [TRef ''TableProps'' []]\<rparr>"

definition ColumnProps :: interface where
  "ColumnProps =
     \<lparr>iname = ''ColumnProps'',
      iextends = [TRef ''React.ClassAttributes'' [TRef ''Column'' []]],
      imembers =
        [optional ''align'' (TUnion [TLit ''left'', TLit ''center'', TLit ''right'',
            TUndefined]),
         optional ''fixed'' (TUnion [TBoolean, TUndefined]),
         optional ''fixedRight'' (TUnion [TBoolean, TUndefined]),
         optional ''header'' (TUnion [ElementOrFunc (object_type ColumnHeaderProps),
             TUndefined]),
         optional ''cell'' (TUnion [ElementOrFunc (object_type ColumnCellProps), TUndefined]),
         optional ''footer'' (TUnion [ElementOrFunc (object_type ColumnHeaderProps),
             TUndefined]),
         optional ''columnKey'' (TUnion [TString, TNumber, TUndefined]),
         required ''width'' TNumber,
         optional ''minWidth'' (TUnion [TNumber, TUndefined]),
         optional ''maxWidth'' (TUnion [TNumber, TUndefined]),
         optional ''flexGrow'' (TUnion [TNumber, TUndefined]),
         optional ''isResizable'' (TUnion [TBoolean, TUndefined]),
         optional ''isReorderable'' (TUnion [TBoolean, TUndefined]),
         optional ''allowCellsRecycling'' (TUnion [TBoolean, TUndefined]),
         optional ''pureRendering'' (TUnion [TBoolean, TUndefined]),
         optional ''cellClassName'' (TUnion [TString, TUndefined])]\<rparr>"

definition Column :: component_class where
  "Column = \<lparr>cname = ''Column'',
      csuper = TRef ''React.Component'' [TRef ''ColumnProps'' []]\<rparr>"

definition ColumnGroupProps :: interface where
  "ColumnGroupProps =
     \<lparr>iname = ''ColumnGroupProps'',
      iextends = [TRef ''React.ClassAttributes'' [TRef ''ColumnGroup'' []]],
      imembers =
        [optional ''children'' (TRef ''React.ReactNode'' []),
         optional ''align'' (TUnion [TLit ''left'', TLit ''center'', TLit ''right'',
             TUndefined]),
         optional ''fixed'' (TUnion [TBoolean, TUndefined]),
         optional ''header'' (TUnion [TString, TRef ''React.ReactElement'' [],
             TFun [required ''props'' (object_type ColumnGroupHeaderProps)] None (TUnion [TString, TRef ''React.ReactElement'' []]), TUndefined]),
         optional ''cellClassName'' (TUnion [TString, TUndefined])]\<rparr>"

definition ColumnGroup :: component_class where
  "ColumnGroup = \<lparr>cname = ''ColumnGroup'',
      csuper = TRef ''React.Component'' [TRef ''ColumnGroupProps'' []]\<rparr>"

definition CellProps :: interface where
  "CellProps =
     \<lparr>iname = ''CellProps'',
      iextends = [TRef ''React.HTMLAttributes'' [TRef ''Cell'' []]],
      imembers =
        [optional ''height'' (TUnion [TNumber, TUndefined]),
         optional ''width'' (TUnion [TNumber, TUndefined]),
         optional ''columnKey'' (TUnion [TString, TNumber, TUndefined]),
         optional ''rowIndex'' (TUnion [TNumber, TUndefined])]\<rparr>"

definition Cell :: component_class where
  "Cell = \<lparr>cname = ''Cell'',
      csuper = TRef ''React.Component'' [TRef ''CellProps'' []]\<rparr>"

text \<open>Namespace Plugins.\<close>

definition ResizeCellProps :: interface where
  "ResizeCellProps =
     \<lparr>iname = ''ResizeCellProps'',
      iextends = [TRef ''React.HTMLAttributes'' [TRef ''ResizeCell'' []]],
      imembers =
        [optional ''columnKey'' (TUnion [TString, TNumber]),
         optional ''minWidth'' TNumber,
         optional ''maxWidth'' TNumber,
         optional ''width'' TNumber,
         optional ''touchEnabled'' TBoolean,
         optional ''isRTL'' TBoolean,
         required ''onColumnResizeEnd'' (TFun [required ''newWidth'' TNumber,
             required ''columnKey'' TString] None TVoid),
         optional ''height'' TNumber]\<rparr>"

definition ResizeCell :: component_class where
  "ResizeCell = \<lparr>cname = ''ResizeCell'',
      csuper = TRef ''React.Component'' [TRef ''ResizeCellProps'' []]\<rparr>"

definition ReorderCellProps :: interface where
  "ReorderCellProps =
     \<lparr>iname = ''ReorderCellProps'',
      iextends = [TRef ''React.HTMLAttributes'' [TRef ''ReorderCell'' []]],
      imembers =
        [optional ''height'' TNumber,
         optional ''width'' TNumber,
         optional ''columnKey'' (TUnion [TString, TNumber]),
         optional ''rowIndex'' TNumber,
         optional ''left'' TNumber,
         optional ''touchEnabled'' TBoolean,
         optional ''minWidth'' TNumber,
         optional ''maxWidth'' TNumber,
         optional ''onColumnReorderStart'' (TFun [required ''columnKey'' TString] None TVoid),
         required ''onColumnReorderEnd'' (TFun [required ''event'' (TObj [required ''columnBefore'' TString, required ''columnAfter'' TString, required ''reorderColumn'' TString])] None TVoid)]\<rparr>"

definition ReorderCell :: component_class where
  "ReorderCell = \<lparr>cname = ''ReorderCell'',
      csuper = TRef ''React.Component'' [TRef ''ReorderCellProps'' []]\<rparr>"

text \<open>
  The module as the list of its declarations, in the order of the file; a namespace
  holds its own list. The qualified name of a declaration inside a namespace is
  prefixed by the namespace's name.
\<close>

datatype decl =
    DInterface interface
  | DClass component_class
  | DAlias string
  | DNamespace string "decl list"

definition fixed_data_table :: "decl list" where
  "fixed_data_table =
     [DInterface RowProps,
      DInterface ColumnReorderEndEvent,
      DAlias ''ElementOrFunc'',
      DAlias ''TableRowEventHandler'',
      DAlias ''AttributesGetterReturn'',
      DInterface TableProps,
      DClass Table,
      DInterface ColumnHeaderProps,
      DInterface ColumnCellProps,
      DInterface ColumnProps,
      DClass Column,
      DInterface ColumnGroupHeaderProps,
      DInterface ColumnGroupProps,
      DClass ColumnGroup,
      DInterface CellProps,
      DClass Cell,
      DNamespace ''Plugins''
        [DInterface ResizeCellProps,
         DClass ResizeCell,
         DInterface ReorderCellProps,
         DClass ReorderCell]]"

fun declared_classes :: "decl \<Rightarrow> (string \<times> component_class) list" where
  "declared_classes (DClass c) = [(cname c, c)]"
| "declared_classes (DNamespace n ds) =
     map (\<lambda>(q, c). (n @ ''.'' @ q, c)) (concat (map declared_classes ds))"
| "declared_classes _ = []"

fun declared_interfaces :: "decl \<Rightarrow> (string \<times> interface) list" where
  "declared_interfaces (DInterface i) = [(iname i, i)]"
| "declared_interfaces (DNamespace n ds) =
     map (\<lambda>(q, i). (n @ ''.'' @ q, i)) (concat (map declared_interfaces ds))"
| "declared_interfaces _ = []"

definition module_classes :: "decl list \<Rightarrow> (string \<times> component_class) list" where
  "module_classes ds = concat (map declared_classes ds)"

definition module_interfaces :: "decl list \<Rightarrow> (string \<times> interface) list" where
  "module_interfaces ds = concat (map declared_interfaces ds)"

text \<open>
  The properties interface of a component class: the class extends
  \<open>React.Component<P>\<close>, and \<open>P\<close> names an interface declared in the scope of the class
  (the namespace of the class, that is the qualified name of the class without its
  own name).
\<close>

fun component_props :: "ty \<Rightarrow> string option" where
  "component_props (TRef b [TRef p []]) = (if b = ''React.Component'' then Some p else None)"
| "component_props _ = None"

definition props_interface ::
  "decl list \<Rightarrow> string \<times> component_class \<Rightarrow> (string \<times> interface) option" where
  "props_interface ds qc =
     (case component_props (csuper (snd qc)) of
        None \<Rightarrow> None
      | Some p \<Rightarrow>
          find (\<lambda>qi. fst qi = take (length (fst qc) - length (cname (snd qc))) (fst qc) @ p)
            (module_interfaces ds))"


text \<open>
  The callbacks of an interface are its members whose type is a function type or a
  union with a function type among its constituents. The event type of a callback
  member is the type of the single parameter of its function type.
\<close>

fun is_callback :: "ty \<Rightarrow> bool" where
  "is_callback (TFun ps rs r) = True"
| "is_callback (TUnion ts) = list_ex is_callback ts"
| "is_callback _ = False"

definition callbacks :: "interface \<Rightarrow> member list" where
  "callbacks i = filter (\<lambda>m. is_callback (snd (snd m))) (imembers i)"

fun constituents :: "ty \<Rightarrow> ty list" where
  "constituents (TUnion ts) = concat (map constituents ts)"
| "constituents t = [t]"

fun event_of :: "ty list \<Rightarrow> ty option" where
  "event_of [TFun [p] None r] = Some (snd (snd p))"
| "event_of _ = None"

definition event_type :: "interface \<Rightarrow> string \<Rightarrow> ty option" where
  "event_type i f =
     (case map_of (imembers i) f of
        None \<Rightarrow> None
      | Some (opt, t) \<Rightarrow> event_of (filter is_callback (constituents t)))"



section \<open>The entity type-expectation test\<close>

text \<open>
  The test file is a list of statements; an expression statement or a constant
  declaration may carry the type annotated in its \<open>$ExpectType\<close> comment. Type
  inference follows the declarations in scope: an import binds a name to the class a
  module exports, \<open>new C(...)\<close> has the type of the class, a property access and a
  method call have the declared type of the member and the declared result of the
  method, a call of a function its declared result. A statement whose expression has
  no type, or whose inferred type is not the annotated one, fails the check.
\<close>

datatype expr =
    NumLit int
  | StrLit string
  | ObjLit "(string \<times> expr) list"
  | Ident string
  | New string "expr list"
  | PropAccess expr string
  | MethodCall expr string "expr list"
  | FunCall string "expr list"

datatype stmt =
    Import string string
  | ConstDecl string expr "ty option"
  | ExprStmt expr "ty option"
  | FunDecl string "(string \<times> ty) list" ty expr

record class_decl =
  class_name :: string
  properties :: "(string \<times> ty) list"
  methods :: "(string \<times> ty) list"

record tenv =
  classes :: "(string \<times> class_decl) list"
  vars :: "(string \<times> ty) list"
  funs :: "(string \<times> ty) list"

definition find_class :: "tenv \<Rightarrow> string \<Rightarrow> class_decl option" where
  "find_class E n = find (\<lambda>d. class_name d = n) (map snd (classes E))"

fun instance_class :: "tenv \<Rightarrow> ty option \<Rightarrow> class_decl option" where
  "instance_class E (Some (TRef n [])) = find_class E n"
| "instance_class E _ = None"

fun infer :: "tenv \<Rightarrow> expr \<Rightarrow> ty option" where
  "infer E (NumLit n) = Some TNumber"
| "infer E (StrLit s) = Some TString"
| "infer E (ObjLit fs) =
     map_option TObj
       (those (map (\<lambda>f. map_option (\<lambda>t. (fst f, False, t)) (infer E (snd f))) fs))"
| "infer E (Ident x) = map_of (vars E) x"
| "infer E (New c args) =
     (case map_of (classes E) c of
        None \<Rightarrow> None
      | Some d \<Rightarrow> map_option (\<lambda>ts. TRef (class_name d) []) (those (map (infer E) args)))"
| "infer E (PropAccess e p) =
     (case instance_class E (infer E e) of
        None \<Rightarrow> None
      | Some d \<Rightarrow> map_of (properties d) p)"
| "infer E (MethodCall e m args) =
     (case instance_class E (infer E e) of
        None \<Rightarrow> None
      | Some d \<Rightarrow>
          (case those (map (infer E) args) of
             None \<Rightarrow> None
           | Some ts \<Rightarrow> map_of (methods d) m))"
| "infer E (FunCall f args) =
     (case those (map (infer E) args) of
        None \<Rightarrow> None
      | Some ts \<Rightarrow> map_of (funs E) f)"

fun expectation_met :: "ty option \<Rightarrow> ty \<Rightarrow> bool" where
  "expectation_met None t = True"
| "expectation_met (Some x) t = (t = x)"

fun check_stmt ::
  "(ty \<Rightarrow> ty \<Rightarrow> bool) \<Rightarrow> (string \<times> class_decl) list \<Rightarrow> tenv \<Rightarrow> stmt \<Rightarrow> tenv option" where
  "check_stmt R L E (Import x path) =
     (case map_of L path of
        None \<Rightarrow> None
      | Some d \<Rightarrow> Some (E\<lparr>classes := (x, d) # classes E\<rparr>))"
| "check_stmt R L E (ConstDecl x e expected) =
     (case infer E e of
        None \<Rightarrow> None
      | Some t \<Rightarrow> if expectation_met expected t then Some (E\<lparr>vars := (x, t) # vars E\<rparr>) else None)"
| "check_stmt R L E (ExprStmt e expected) =
     (case infer E e of
        None \<Rightarrow> None
      | Some t \<Rightarrow> if expectation_met expected t then Some E else None)"
| "check_stmt R L E (FunDecl f ps r body) =
     (case infer (E\<lparr>vars := ps @ vars E\<rparr>) body of
        None \<Rightarrow> None
      | Some t \<Rightarrow> if assignable R t r then Some (E\<lparr>funs := (f, r) # funs E\<rparr>) else None)"

fun check ::
  "(ty \<Rightarrow> ty \<Rightarrow> bool) \<Rightarrow> (string \<times> class_decl) list \<Rightarrow> tenv \<Rightarrow> stmt list \<Rightarrow> bool" where
  "check R L E [] = True"
| "check R L E (st # sts) =
     (case check_stmt R L E st of None \<Rightarrow> False | Some E' \<Rightarrow> check R L E' sts)"

definition subject :: "stmt \<Rightarrow> (expr \<times> ty option) list" where
  "subject st =
     (case st of
        ConstDecl x e expected \<Rightarrow> [(e, expected)]
      | ExprStmt e expected \<Rightarrow> [(e, expected)]
      | _ \<Rightarrow> [])"

fun inferred_types ::
  "(ty \<Rightarrow> ty \<Rightarrow> bool) \<Rightarrow> (string \<times> class_decl) list \<Rightarrow> tenv \<Rightarrow> stmt list
     \<Rightarrow> (expr \<times> ty option) list" where
  "inferred_types R L E [] = []"
| "inferred_types R L E (st # sts) =
     map (\<lambda>(e, x). (e, infer E e)) (subject st)
     @ (case check_stmt R L E st of None \<Rightarrow> [] | Some E' \<Rightarrow> inferred_types R L E' sts)"

definition expected_types :: "stmt list \<Rightarrow> (expr \<times> ty option) list" where
  "expected_types sts = concat (map subject sts)"

definition empty_env :: tenv where
  "empty_env = \<lparr>classes = [], vars = [], funs = []\<rparr>"

text \<open>
  Modelled from the spec: the class declaration of the module
  \<open>@nginstack/orm/lib/Entity\<close>, which the test imports and which is not among the files
  at hand. The spec says that each expression of the test has the type annotated
  beside it, and names \<open>entity.key\<close> (number), \<open>entity.post()\<close> (void) and
  \<open>entity.clone()\<close> (Entity); the other members are given the types the test annotates:
  \<open>classKey\<close> number, \<open>autoPersist\<close> and \<open>postPending\<close> boolean, \<open>set\<close>, \<open>assign\<close>, \<open>edit\<close>,
  \<open>cancel\<close>, \<open>delete\<close> and \<open>bindDataSet\<close> returning void, \<open>get\<close> and \<open>toJSONSchema\<close>
  returning any, \<open>persist\<close> returning number and \<open>toJSONString\<close> returning string. The
  parameter lists are not given, so a method is modelled by its name and result type.
\<close>

definition Entity_class :: class_decl where
  "Entity_class =
     \<lparr>class_name = ''Entity'',
      properties =
        [(''key'', TNumber), (''classKey'', TNumber),
         (''autoPersist'', TBoolean), (''postPending'', TBoolean)],
      methods =
        [(''set'', TVoid), (''get'', TAny), (''assign'', TVoid), (''edit'', TVoid),
         (''cancel'', TVoid), (''post'', TVoid), (''delete'', TVoid), (''bindDataSet'', TVoid),
         (''clone'', TRef ''Entity'' []), (''persist'', TNumber),
         (''toJSONString'', TString), (''toJSONSchema'', TAny)]\<rparr>"

text \<open>
  Modelled from the spec: the class declaration of the module
  \<open>@nginstack/engine/lib/dataset/DataSet\<close>, not among the files at hand either. Nothing
  is used of it but that it is a class the test constructs.
\<close>

definition DataSet_class :: class_decl where
  "DataSet_class = \<lparr>class_name = ''DataSet'', properties = [], methods = []\<rparr>"

definition nginstack :: "(string \<times> class_decl) list" where
  "nginstack =
     [(''@nginstack/engine/lib/dataset/DataSet'', DataSet_class),
      (''@nginstack/orm/lib/Entity'', Entity_class)]"

text \<open>The test file, statement by statement.\<close>

definition entity_test :: "stmt list" where
  "entity_test =
     [Import ''DataSet'' ''@nginstack/engine/lib/dataset/DataSet'',
      Import ''Entity'' ''@nginstack/orm/lib/Entity'',
      ConstDecl ''entity'' (New ''Entity'' [NumLit 1, New ''DataSet'' []])
        (Some (TRef ''Entity'' [])),
      ExprStmt (PropAccess (Ident ''entity'') ''key'') (Some TNumber),
      ExprStmt (PropAccess (Ident ''entity'') ''classKey'') (Some TNumber),
      ExprStmt (PropAccess (Ident ''entity'') ''autoPersist'') (Some TBoolean),
      ExprStmt (PropAccess (Ident ''entity'') ''postPending'') (Some TBoolean),
      ExprStmt (MethodCall (Ident ''entity'') ''set'' [StrLit ''name'', StrLit ''value''])
        (Some TVoid),
      ExprStmt (MethodCall (Ident ''entity'') ''get'' [StrLit ''*'']) (Some TAny),
      ExprStmt (MethodCall (Ident ''entity'') ''assign'' [ObjLit []]) (Some TVoid),
      ExprStmt (MethodCall (Ident ''entity'') ''edit'' []) (Some TVoid),
      ExprStmt (MethodCall (Ident ''entity'') ''cancel'' []) (Some TVoid),
      ExprStmt (MethodCall (Ident ''entity'') ''post'' []) (Some TVoid),
      ExprStmt (MethodCall (Ident ''entity'') ''delete'' []) (Some TVoid),
      ExprStmt (MethodCall (Ident ''entity'') ''bindDataSet'' [New ''DataSet'' []]) (Some TVoid),
      ExprStmt (MethodCall (Ident ''entity'') ''clone'' []) (Some (TRef ''Entity'' [])),
      ExprStmt (MethodCall (Ident ''entity'') ''persist'' []) (Some TNumber),
      ExprStmt (MethodCall (Ident ''entity'') ''toJSONString'' []) (Some TString),
      ExprStmt (MethodCall (Ident ''entity'') ''toJSONSchema'' []) (Some TAny),
      FunDecl ''getVersion'' [] TString (StrLit ''72.0.1''),
      ExprStmt (FunCall ''getVersion'' []) (Some TString)]"

text \<open>
  What the test instantiates and invokes: the classes named by the \<open>new\<close> expressions
  and the method invocations (receiver and method name) of an expression and all its
  subexpressions, and the method invocations that stand as a statement of their own
  with their annotation.
\<close>

fun news :: "expr \<Rightarrow> string list" where
  "news (New c args) = c # concat (map news args)"
| "news (ObjLit fs) = concat (map (\<lambda>f. news (snd f)) fs)"
| "news (PropAccess e p) = news e"
| "news (MethodCall e m args) = news e @ concat (map news args)"
| "news (FunCall f args) = concat (map news args)"
| "news _ = []"

fun invocations :: "expr \<Rightarrow> (expr \<times> string) list" where
  "invocations (MethodCall e m args) = (e, m) # invocations e @ concat (map invocations args)"
| "invocations (New c args) = concat (map invocations args)"
| "invocations (ObjLit fs) = concat (map (\<lambda>f. invocations (snd f)) fs)"
| "invocations (PropAccess e p) = invocations e"
| "invocations (FunCall f args) = concat (map invocations args)"
| "invocations _ = []"

fun stmt_exprs :: "stmt \<Rightarrow> expr list" where
  "stmt_exprs (Import x path) = []"
| "stmt_exprs (ConstDecl x e expected) = [e]"
| "stmt_exprs (ExprStmt e expected) = [e]"
| "stmt_exprs (FunDecl f ps r body) = [body]"

definition instantiations :: "stmt list \<Rightarrow> string list" where
  "instantiations sts = concat (map news (concat (map stmt_exprs sts)))"

definition all_invocations :: "stmt list \<Rightarrow> (expr \<times> string) list" where
  "all_invocations sts = concat (map invocations (concat (map stmt_exprs sts)))"

fun asserted_invocation :: "stmt \<Rightarrow> (string \<times> ty option) list" where
  "asserted_invocation (ExprStmt (MethodCall e m args) expected) = [(m, expected)]"
| "asserted_invocation _ = []"

definition asserted_invocations :: "stmt list \<Rightarrow> (string \<times> ty option) list" where
  "asserted_invocations sts = concat (map asserted_invocation sts)"

section \<open>Example inputs\<close>

text \<open>
  An example resolution of the types declared outside the files at hand: such a type
  accepts itself only.
\<close>

definition same_name :: "ty \<Rightarrow> ty \<Rightarrow> bool" where
  "same_name S T = (S = T)"

text \<open>
  An example resolution of the capability interfaces of the selector, one method each,
  and a type that provides all of them but \<open>withLimit\<close>.
\<close>

definition example_capabilities :: "ty \<Rightarrow> member list" where
  "example_capabilities T =
     (if T = TRef ''Base.Selector'' [TRef ''AccountSnippetIterator'' []]
        then [required ''get'' (TFun [] None (TRef ''AccountSnippetIterator'' []))]
      else if T = TRef ''Base.SelectorForDateRange'' []
        then [required ''forDateRange''
                (TFun [required ''dateRange'' TString] None (TRef ''AccountSnippetSelector'' []))]
      else if T = TRef ''Base.SelectorOrderBy'' []
        then [required ''orderBy''
                (TFun [required ''orderBy'' TString] None (TRef ''AccountSnippetSelector'' []))]
      else if T = TRef ''Base.SelectorWithCondition'' []
        then [required ''withCondition''
                (TFun [required ''condition'' TString] None (TRef ''AccountSnippetSelector'' []))]
      else if T = TRef ''Base.SelectorWithLimit'' []
        then [required ''withLimit''
                (TFun [required ''limit'' TNumber] None (TRef ''AccountSnippetSelector'' []))]
      else [])"

definition example_selector :: "member list" where
  "example_selector =
     [required ''get'' (TFun [] None (TRef ''AccountSnippetIterator'' [])),
      required ''forDateRange''
        (TFun [required ''dateRange'' TString] None (TRef ''AccountSnippetSelector'' [])),
      required ''orderBy''
        (TFun [required ''orderBy'' TString] None (TRef ''AccountSnippetSelector'' [])),
      required ''withCondition''
        (TFun [required ''condition'' TString] None (TRef ''AccountSnippetSelector'' []))]"

text \<open>
  An example resolution of the React bases of the properties interfaces: optional
  members only.
\<close>

definition example_react :: "ty \<Rightarrow> member list" where
  "example_react T =
     (case T of
        TRef n as \<Rightarrow>
          if n = ''React.ClassAttributes''
            then [optional ''key'' (TUnion [TString, TNumber, TUndefined]),
                  optional ''ref'' (TUnion [TRef ''React.LegacyRef'' as, TUndefined])]
          else if n = ''React.HTMLAttributes''
            then [optional ''className'' (TUnion [TString, TUndefined]),
                  optional ''onClick''
                    (TUnion [TFun [required ''event'' (TRef ''React.MouseEvent'' as)] None TVoid,
                             TUndefined])]
          else []
      | _ \<Rightarrow> [])"

text \<open>
  Props objects and an event object: the four required fields of TableProps and no
  others; the end-of-gesture callbacks of the plugin cells; an object whose only field
  no interface declares; a reorder event whose \<open>columnBefore\<close> is undefined.
\<close>

definition minimal_table_props :: "member list" where
  "minimal_table_props =
     [required ''width'' TNumber,
      required ''rowsCount'' TNumber,
      required ''rowHeight'' TNumber,
      required ''headerHeight'' TNumber]"

definition example_resize_props :: "member list" where
  "example_resize_props =
     [required ''onColumnResizeEnd''
        (TFun [required ''newWidth'' TNumber, required ''columnKey'' TString] None TVoid)]"

definition example_reorder_props :: "member list" where
  "example_reorder_props =
     [required ''onColumnReorderEnd'' (TFun [required ''event'' TAny] None TVoid)]"


definition example_event :: "member list" where
  "example_event =
     [required ''columnBefore'' TUndefined,
      required ''columnAfter'' TString,
      required ''reorderColumn'' TString]"

section \<open>Properties of assignability\<close>

lemma assignable_obj:
  "assignable R (TObj c) (TObj ns)
     = ((weak_type ns \<longrightarrow> c = [] \<or> common_property c ns) \<and> list_all (member_ok R c) ns)"
proof -
  have eq: "(\<lambda>(n, opt, t).
          (case map_of c n of
             None \<Rightarrow> opt
           | Some (opt', s) \<Rightarrow>
               (opt' \<longrightarrow> opt)
               \<and> ((opt \<and> s = TUndefined)
                  \<or> assignable R (if opt then without_undefined s else s) t)))
        = member_ok R c"
    by (rule ext) (simp only: member_ok_def value_fits_def)
  show ?thesis
    unfolding assignable.simps list_all_iff eq ..
qed

lemma not_weak: "(n, False, t) \<in> set ms \<Longrightarrow> \<not> weak_type ms"
  by (force simp add: weak_type_def list_all_iff is_optional_def)

lemma satisfies_iff:
  "satisfies R base c i
     = ((weak_type (all_members base i) \<longrightarrow> c = [] \<or> common_property c (all_members base i))
        \<and> list_all (member_ok R c) (all_members base i))"
  by (simp only: satisfies_def assignable_obj)

lemma own_member_of_all: "m \<in> set (imembers i) \<Longrightarrow> m \<in> set (all_members base i)"
  by (simp add: all_members_def)

lemma satisfies_memberD:
  "satisfies R base c i \<Longrightarrow> m \<in> set (all_members base i) \<Longrightarrow> member_ok R c m"
  by (simp add: satisfies_iff list_all_iff)


lemma member_ok_requiredD:
  "member_ok R c (n, False, t) \<Longrightarrow> \<exists>s. map_of c n = Some (False, s) \<and> value_fits R False s t"
  by (auto simp add: member_ok_def split: option.splits)

lemma list_all_concat_iff: "list_all P (concat xss) = list_all (list_all P) xss"
  by (induction xss) simp_all

lemma map_of_supplied:
  "map_of props n = Some (False, s) \<Longrightarrow> n \<in> set (supplied_names props)"
  by (force dest: map_of_SomeD simp add: supplied_names_def is_optional_def)







lemma satisfies_supplies:
  assumes "satisfies R base props I" and "(n, False, t) \<in> set (imembers I)"
  shows "n \<in> set (supplied_names props)"
  using assms satisfies_memberD[of R base props I "(n, False, t)"]
    own_member_of_all[of "(n, False, t)" I base] member_ok_requiredD[of R props n t]
    map_of_supplied[of props n]
  by blast





section \<open>Facts of the declarations\<close>

lemma selector_members:
  "all_members base AccountSnippetSelector = concat (map base (iextends AccountSnippetSelector))"
  by (simp add: all_members_def AccountSnippetSelector_def)


lemma TableProps_width: "(''width'', False, TNumber) \<in> set (imembers TableProps)"
  by (simp add: TableProps_def required_def)


lemma ResizeCellProps_end:
  "(''onColumnResizeEnd'', False,
    TFun [required ''newWidth'' TNumber, required ''columnKey'' TString] None TVoid)
     \<in> set (imembers ResizeCellProps)"
  by (simp add: ResizeCellProps_def required_def)

lemma ReorderCellProps_end:
  "(''onColumnReorderEnd'', False,
    TFun [required ''event''
            (TObj [required ''columnBefore'' TString, required ''columnAfter'' TString,
                   required ''reorderColumn'' TString])] None TVoid)
     \<in> set (imembers ReorderCellProps)"
  by (simp add: ReorderCellProps_def required_def)

lemma TableProps_not_weak: "\<not> weak_type (all_members base TableProps)"
  using not_weak[OF own_member_of_all[OF TableProps_width]] .


lemma ResizeCellProps_not_weak: "\<not> weak_type (all_members base ResizeCellProps)"
  using not_weak[OF own_member_of_all[OF ResizeCellProps_end]] .

lemma ReorderCellProps_not_weak: "\<not> weak_type (all_members base ReorderCellProps)"
  using not_weak[OF own_member_of_all[OF ReorderCellProps_end]] .










lemma minimal_names:
  "map_of minimal_table_props n \<noteq> None \<Longrightarrow> n \<in> set (map fst (imembers TableProps))"
  by (simp add: minimal_table_props_def TableProps_def required_def optional_def
      split: if_splits)

lemma TableProps_minimal_own: "list_all (member_ok R minimal_table_props) (imembers TableProps)"
  by (simp add: minimal_table_props_def TableProps_def required_def optional_def
      member_ok_def value_fits_def)



section \<open>The claims\<close>

text \<open>
  C1: every expression of the entity test has the type annotated beside it. The test
  type-checks against the declarations of Entity and DataSet, the list of the inferred
  types is the list of the annotated types, and that list is: \<open>new Entity(...)\<close> Entity,
  \<open>entity.key\<close> and \<open>entity.classKey\<close> number, \<open>entity.autoPersist\<close> and
  \<open>entity.postPending\<close> boolean, \<open>set\<close>, \<open>assign\<close>, \<open>edit\<close>, \<open>cancel\<close>, \<open>post\<close>, \<open>delete\<close>
  and \<open>bindDataSet\<close> void, \<open>get\<close> and \<open>toJSONSchema\<close> any, \<open>clone\<close> Entity, \<open>persist\<close>
  number, \<open>toJSONString\<close> string, and \<open>getVersion()\<close> string.
\<close>

theorem C1_entity_expectations:
  "check R nginstack empty_env entity_test
   \<and> inferred_types R nginstack empty_env entity_test = expected_types entity_test
   \<and> expected_types entity_test
       = [(New ''Entity'' [NumLit 1, New ''DataSet'' []], Some (TRef ''Entity'' [])),
          (PropAccess (Ident ''entity'') ''key'', Some TNumber),
          (PropAccess (Ident ''entity'') ''classKey'', Some TNumber),
          (PropAccess (Ident ''entity'') ''autoPersist'', Some TBoolean),
          (PropAccess (Ident ''entity'') ''postPending'', Some TBoolean),
          (MethodCall (Ident ''entity'') ''set'' [StrLit ''name'', StrLit ''value''], Some TVoid),
          (MethodCall (Ident ''entity'') ''get'' [StrLit ''*''], Some TAny),
          (MethodCall (Ident ''entity'') ''assign'' [ObjLit []], Some TVoid),
          (MethodCall (Ident ''entity'') ''edit'' [], Some TVoid),
          (MethodCall (Ident ''entity'') ''cancel'' [], Some TVoid),
          (MethodCall (Ident ''entity'') ''post'' [], Some TVoid),
          (MethodCall (Ident ''entity'') ''delete'' [], Some TVoid),
          (MethodCall (Ident ''entity'') ''bindDataSet'' [New ''DataSet'' []], Some TVoid),
          (MethodCall (Ident ''entity'') ''clone'' [], Some (TRef ''Entity'' [])),
          (MethodCall (Ident ''entity'') ''persist'' [], Some TNumber),
          (MethodCall (Ident ''entity'') ''toJSONString'' [], Some TString),
          (MethodCall (Ident ''entity'') ''toJSONSchema'' [], Some TAny),
          (FunCall ''getVersion'' [], Some TString)]"
proof -
  have x: "expected_types entity_test
       = [(New ''Entity'' [NumLit 1, New ''DataSet'' []], Some (TRef ''Entity'' [])),
          (PropAccess (Ident ''entity'') ''key'', Some TNumber),
          (PropAccess (Ident ''entity'') ''classKey'', Some TNumber),
          (PropAccess (Ident ''entity'') ''autoPersist'', Some TBoolean),
          (PropAccess (Ident ''entity'') ''postPending'', Some TBoolean),
          (MethodCall (Ident ''entity'') ''set'' [StrLit ''name'', StrLit ''value''], Some TVoid),
          (MethodCall (Ident ''entity'') ''get'' [StrLit ''*''], Some TAny),
          (MethodCall (Ident ''entity'') ''assign'' [ObjLit []], Some TVoid),
          (MethodCall (Ident ''entity'') ''edit'' [], Some TVoid),
          (MethodCall (Ident ''entity'') ''cancel'' [], Some TVoid),
          (MethodCall (Ident ''entity'') ''post'' [], Some TVoid),
          (MethodCall (Ident ''entity'') ''delete'' [], Some TVoid),
          (MethodCall (Ident ''entity'') ''bindDataSet'' [New ''DataSet'' []], Some TVoid),
          (MethodCall (Ident ''entity'') ''clone'' [], Some (TRef ''Entity'' [])),
          (MethodCall (Ident ''entity'') ''persist'' [], Some TNumber),
          (MethodCall (Ident ''entity'') ''toJSONString'' [], Some TString),
          (MethodCall (Ident ''entity'') ''toJSONSchema'' [], Some TAny),
          (FunCall ''getVersion'' [], Some TString)]"
    by (simp add: expected_types_def entity_test_def subject_def)
  have c: "check R nginstack empty_env entity_test"
    by (simp add: entity_test_def nginstack_def empty_env_def Entity_class_def DataSet_class_def
        find_class_def)
  have i: "inferred_types R nginstack empty_env entity_test = expected_types entity_test"
    unfolding x
    by (simp add: entity_test_def nginstack_def empty_env_def Entity_class_def DataSet_class_def
        find_class_def subject_def)
  show ?thesis
    by (intro conjI c i x)
qed

text \<open>
  C2: a type satisfies the AccountSnippetSelector contract if and only if it provides
  every member of each of the five composed capability interfaces, whatever these
  declare, and passes the weak-type rule, which is void as soon as one capability
  declares a required member: then satisfying the contract is providing every member
  of each capability. A type that omits a required member of one capability does not
  satisfy the contract.
\<close>

theorem C2_selector_contract:
  "(satisfies R base c AccountSnippetSelector
      = (list_all (\<lambda>cap. list_all (member_ok R c) (base cap)) (iextends AccountSnippetSelector)
         \<and> (weak_type (all_members base AccountSnippetSelector) \<longrightarrow>
              c = [] \<or> common_property c (all_members base AccountSnippetSelector))))
   \<and> (list_ex (\<lambda>cap. list_ex (\<lambda>m. \<not> is_optional m) (base cap))
          (iextends AccountSnippetSelector) \<longrightarrow>
        satisfies R base c AccountSnippetSelector
          = list_all (\<lambda>cap. list_all (member_ok R c) (base cap))
              (iextends AccountSnippetSelector))
   \<and> (cap \<in> set (iextends AccountSnippetSelector) \<longrightarrow> (n, False, t) \<in> set (base cap) \<longrightarrow>
        map_of c n = None \<longrightarrow> \<not> satisfies R base c AccountSnippetSelector)"
proof -
  let ?provides = "list_all (\<lambda>cap. list_all (member_ok R c) (base cap))
      (iextends AccountSnippetSelector)"
  have members: "list_all (member_ok R c) (all_members base AccountSnippetSelector) = ?provides"
    by (simp only: selector_members list_all_concat_iff list.pred_map comp_def)
  have eq: "satisfies R base c AccountSnippetSelector
      = (?provides
         \<and> (weak_type (all_members base AccountSnippetSelector) \<longrightarrow>
              c = [] \<or> common_property c (all_members base AccountSnippetSelector)))"
    using members by (auto simp add: satisfies_iff)
  have plain: "satisfies R base c AccountSnippetSelector = ?provides"
    if "list_ex (\<lambda>cap. list_ex (\<lambda>m. \<not> is_optional m) (base cap))
          (iextends AccountSnippetSelector)"
  proof -
    from that obtain cap m where "cap \<in> set (iextends AccountSnippetSelector)"
      "m \<in> set (base cap)" "\<not> is_optional m"
      by (auto simp add: list_ex_iff)
    then have "\<not> list_all is_optional (all_members base AccountSnippetSelector)"
      by (auto simp add: selector_members list_all_iff)
    then have "\<not> weak_type (all_members base AccountSnippetSelector)"
      by (simp add: weak_type_def)
    with eq show ?thesis by simp
  qed
  have omit: "\<not> satisfies R base c AccountSnippetSelector"
    if cap: "cap \<in> set (iextends AccountSnippetSelector)"
      and m: "(n, False, t) \<in> set (base cap)" and none: "map_of c n = None"
  proof
    assume "satisfies R base c AccountSnippetSelector"
    with eq cap have "list_all (member_ok R c) (base cap)"
      by (auto simp add: list_all_iff)
    with m have "member_ok R c (n, False, t)"
      by (simp only: list_all_iff)
    with none show False
      by (simp add: member_ok_def)
  qed
  from eq plain omit show ?thesis by blast
qed

text \<open>
  The instance of C2 at the example capabilities, each of which declares a required
  method: the example type omits the required \<open>withLimit\<close> and is rejected; with
  \<open>withLimit\<close> added it is accepted.
\<close>

theorem C2_selector_contract_witness:
  "list_ex (\<lambda>cap. list_ex (\<lambda>m. \<not> is_optional m) (example_capabilities cap))
      (iextends AccountSnippetSelector)
   \<and> TRef ''Base.SelectorWithLimit'' [] \<in> set (iextends AccountSnippetSelector)
   \<and> (''withLimit'', False,
        TFun [required ''limit'' TNumber] None (TRef ''AccountSnippetSelector'' []))
       \<in> set (example_capabilities (TRef ''Base.SelectorWithLimit'' []))
   \<and> map_of example_selector ''withLimit'' = None
   \<and> \<not> satisfies same_name example_capabilities example_selector AccountSnippetSelector
   \<and> satisfies same_name example_capabilities
        (example_selector @
           [required ''withLimit''
              (TFun [required ''limit'' TNumber] None (TRef ''AccountSnippetSelector'' []))])
        AccountSnippetSelector"
proof -
  have r: "list_ex (\<lambda>cap. list_ex (\<lambda>m. \<not> is_optional m) (example_capabilities cap))
      (iextends AccountSnippetSelector)"
    by (simp add: AccountSnippetSelector_def example_capabilities_def required_def
        is_optional_def)
  have a: "TRef ''Base.SelectorWithLimit'' [] \<in> set (iextends AccountSnippetSelector)"
    by (simp add: AccountSnippetSelector_def)
  have b: "(''withLimit'', False,
        TFun [required ''limit'' TNumber] None (TRef ''AccountSnippetSelector'' []))
       \<in> set (example_capabilities (TRef ''Base.SelectorWithLimit'' []))"
    by (simp add: example_capabilities_def required_def)
  have c: "map_of example_selector ''withLimit'' = None"
    by (simp add: example_selector_def required_def)
  note main = C2_selector_contract[where R = same_name and base = example_capabilities]
  have d: "\<not> satisfies same_name example_capabilities example_selector AccountSnippetSelector"
    using main[where c = example_selector and cap = "TRef ''Base.SelectorWithLimit'' []"
        and n = "''withLimit''"
        and t = "TFun [required ''limit'' TNumber] None (TRef ''AccountSnippetSelector'' [])"]
      a b c
    by blast
  have "list_all (\<lambda>cap. list_all
        (member_ok same_name
          (example_selector @
             [required ''withLimit''
                (TFun [required ''limit'' TNumber] None (TRef ''AccountSnippetSelector'' []))]))
        (example_capabilities cap))
      (iextends AccountSnippetSelector)"
    by (simp add: AccountSnippetSelector_def example_capabilities_def example_selector_def
        required_def member_ok_def value_fits_def same_name_def min_args_def param_count_def
        positions_def param_type_def is_optional_def)
  with r have e: "satisfies same_name example_capabilities
        (example_selector @
           [required ''withLimit''
              (TFun [required ''limit'' TNumber] None (TRef ''AccountSnippetSelector'' []))])
        AccountSnippetSelector"
    using main[where c = "example_selector @
           [required ''withLimit''
              (TFun [required ''limit'' TNumber] None (TRef ''AccountSnippetSelector'' []))]"]
    by blast
  show ?thesis
    by (intro conjI r a b c d e)
qed




text \<open>
  C4: the account-snippet selector is composed from exactly the six capability shapes:
  AccountSnippetIterator extends the generic iterator over AccountSnippet and nothing
  else; AccountSnippetSelector extends the generic selector over that iterator and the
  date-range, order-by, condition and limit capabilities and nothing else; neither
  interface declares a member of its own, so the members of each are exactly those of
  its bases.
\<close>

theorem C4_selector_composition:
  "iextends AccountSnippetIterator = [TRef ''Base.Iterator'' [TRef ''AccountSnippet'' []]]
   \<and> iextends AccountSnippetSelector =
       [TRef ''Base.Selector'' [TRef (iname AccountSnippetIterator) []],
        TRef ''Base.SelectorForDateRange'' [],
        TRef ''Base.SelectorOrderBy'' [],
        TRef ''Base.SelectorWithCondition'' [],
        TRef ''Base.SelectorWithLimit'' []]
   \<and> distinct (iextends AccountSnippetIterator @ iextends AccountSnippetSelector)
   \<and> length (iextends AccountSnippetIterator @ iextends AccountSnippetSelector) = 6
   \<and> imembers AccountSnippetIterator = []
   \<and> imembers AccountSnippetSelector = []
   \<and> all_members base AccountSnippetIterator = base (TRef ''Base.Iterator'' [TRef ''AccountSnippet'' []])
   \<and> all_members base AccountSnippetSelector =
       base (TRef ''Base.Selector'' [TRef ''AccountSnippetIterator'' []])
       @ base (TRef ''Base.SelectorForDateRange'' [])
       @ base (TRef ''Base.SelectorOrderBy'' [])
       @ base (TRef ''Base.SelectorWithCondition'' [])
       @ base (TRef ''Base.SelectorWithLimit'' [])"
  by (simp add: AccountSnippetIterator_def AccountSnippetSelector_def all_members_def)




text \<open>
  C6: the module declares exactly six component classes, Table, Column, ColumnGroup,
  Cell, Plugins.ResizeCell and Plugins.ReorderCell; each extends \<open>React.Component\<close>
  over a properties interface of its own, declared in the same scope: TableProps,
  ColumnProps, ColumnGroupProps, CellProps, Plugins.ResizeCellProps and
  Plugins.ReorderCellProps.
\<close>

theorem C6_component_classes:
  "map fst (module_classes fixed_data_table)
     = [''Table'', ''Column'', ''ColumnGroup'', ''Cell'',
        ''Plugins.ResizeCell'', ''Plugins.ReorderCell'']
   \<and> map (csuper \<circ> snd) (module_classes fixed_data_table)
     = [TRef ''React.Component'' [TRef ''TableProps'' []],
        TRef ''React.Component'' [TRef ''ColumnProps'' []],
        TRef ''React.Component'' [TRef ''ColumnGroupProps'' []],
        TRef ''React.Component'' [TRef ''CellProps'' []],
        TRef ''React.Component'' [TRef ''ResizeCellProps'' []],
        TRef ''React.Component'' [TRef ''ReorderCellProps'' []]]
   \<and> map (props_interface fixed_data_table) (module_classes fixed_data_table)
     = [Some (''TableProps'', TableProps),
        Some (''ColumnProps'', ColumnProps),
        Some (''ColumnGroupProps'', ColumnGroupProps),
        Some (''CellProps'', CellProps),
        Some (''Plugins.ResizeCellProps'', ResizeCellProps),
        Some (''Plugins.ReorderCellProps'', ReorderCellProps)]"
proof -
  have names: "iname TableProps = ''TableProps''" "iname ColumnProps = ''ColumnProps''"
    "iname ColumnGroupProps = ''ColumnGroupProps''" "iname CellProps = ''CellProps''"
    "iname ResizeCellProps = ''ResizeCellProps''" "iname ReorderCellProps = ''ReorderCellProps''"
    "iname RowProps = ''RowProps''" "iname ColumnReorderEndEvent = ''ColumnReorderEndEvent''"
    "iname ColumnHeaderProps = ''ColumnHeaderProps''" "iname ColumnCellProps = ''ColumnCellProps''"
    "iname ColumnGroupHeaderProps = ''ColumnGroupHeaderProps''"
    by (simp_all add: TableProps_def ColumnProps_def ColumnGroupProps_def CellProps_def
        ResizeCellProps_def ReorderCellProps_def RowProps_def ColumnReorderEndEvent_def
        ColumnHeaderProps_def ColumnCellProps_def ColumnGroupHeaderProps_def)
  show ?thesis
    by (simp add: fixed_data_table_def module_classes_def module_interfaces_def
        props_interface_def Table_def Column_def ColumnGroup_def Cell_def ResizeCell_def
        ReorderCell_def names)
qed

text \<open>
  C7: the entity test instantiates exactly one Entity (and two DataSet arguments); its
  method invocations are, each exactly once and each on \<open>entity\<close>: set, get, assign,
  edit, cancel, post, delete, bindDataSet, clone, persist, toJSONString and
  toJSONSchema; every invocation is a statement of its own that carries an annotation,
  and the annotation is the result type the Entity declaration gives the method.
\<close>

theorem C7_entity_test_shape:
  "instantiations entity_test = [''Entity'', ''DataSet'', ''DataSet'']
   \<and> count_list (instantiations entity_test) ''Entity'' = 1
   \<and> all_invocations entity_test
       = map (Pair (Ident ''entity''))
           [''set'', ''get'', ''assign'', ''edit'', ''cancel'', ''post'', ''delete'',
            ''bindDataSet'', ''clone'', ''persist'', ''toJSONString'', ''toJSONSchema'']
   \<and> list_all (\<lambda>m. count_list (map snd (all_invocations entity_test)) m = 1)
        [''set'', ''get'', ''assign'', ''edit'', ''cancel'', ''post'', ''delete'',
         ''bindDataSet'', ''clone'', ''persist'', ''toJSONString'', ''toJSONSchema'']
   \<and> map fst (asserted_invocations entity_test) = map snd (all_invocations entity_test)
   \<and> asserted_invocations entity_test
       = [(''set'', Some TVoid), (''get'', Some TAny), (''assign'', Some TVoid),
          (''edit'', Some TVoid), (''cancel'', Some TVoid), (''post'', Some TVoid),
          (''delete'', Some TVoid), (''bindDataSet'', Some TVoid),
          (''clone'', Some (TRef ''Entity'' [])), (''persist'', Some TNumber),
          (''toJSONString'', Some TString), (''toJSONSchema'', Some TAny)]
   \<and> asserted_invocations entity_test = map (\<lambda>(m, r). (m, Some r)) (methods Entity_class)"
proof -
  have n: "instantiations entity_test = [''Entity'', ''DataSet'', ''DataSet'']"
    by (simp add: instantiations_def entity_test_def)
  have i: "all_invocations entity_test
       = map (Pair (Ident ''entity''))
           [''set'', ''get'', ''assign'', ''edit'', ''cancel'', ''post'', ''delete'',
            ''bindDataSet'', ''clone'', ''persist'', ''toJSONString'', ''toJSONSchema'']"
    by (simp add: all_invocations_def entity_test_def)
  have a: "asserted_invocations entity_test
       = [(''set'', Some TVoid), (''get'', Some TAny), (''assign'', Some TVoid),
          (''edit'', Some TVoid), (''cancel'', Some TVoid), (''post'', Some TVoid),
          (''delete'', Some TVoid), (''bindDataSet'', Some TVoid),
          (''clone'', Some (TRef ''Entity'' [])), (''persist'', Some TNumber),
          (''toJSONString'', Some TString), (''toJSONSchema'', Some TAny)]"
    by (simp add: asserted_invocations_def entity_test_def)
  have c1: "count_list (instantiations entity_test) ''Entity'' = 1"
    unfolding n by simp
  have c2: "list_all (\<lambda>m. count_list (map snd (all_invocations entity_test)) m = 1)
        [''set'', ''get'', ''assign'', ''edit'', ''cancel'', ''post'', ''delete'',
         ''bindDataSet'', ''clone'', ''persist'', ''toJSONString'', ''toJSONSchema'']"
    unfolding i by simp
  have f: "map fst (asserted_invocations entity_test) = map snd (all_invocations entity_test)"
    unfolding i a by simp
  have d: "asserted_invocations entity_test = map (\<lambda>(m, r). (m, Some r)) (methods Entity_class)"
    unfolding a by (simp add: Entity_class_def)
  show ?thesis
    by (intro conjI n c1 i c2 f a d)
qed

text \<open>
  C8: \<open>height\<close> and \<open>maxHeight\<close> of TableProps are optional and declared number or
  undefined, and the props object that supplies width, rowsCount, rowHeight and
  headerHeight and nothing else is accepted, whenever the members TableProps inherits
  from \<open>React.ClassAttributes<Table>\<close> are optional: the declared types do not enforce
  that one of \<open>height\<close> and \<open>maxHeight\<close> is given.
\<close>

theorem C8_height_not_enforced:
  "map_of (imembers TableProps) ''height'' = Some (True, TUnion [TNumber, TUndefined])
   \<and> map_of (imembers TableProps) ''maxHeight'' = Some (True, TUnion [TNumber, TUndefined])
   \<and> map fst minimal_table_props = [''width'', ''rowsCount'', ''rowHeight'', ''headerHeight'']
   \<and> (list_all is_optional (base (TRef ''React.ClassAttributes'' [TRef ''Table'' []])) \<longrightarrow>
        satisfies R base minimal_table_props TableProps)"
proof -
  have decl: "map_of (imembers TableProps) ''height'' = Some (True, TUnion [TNumber, TUndefined])"
    "map_of (imembers TableProps) ''maxHeight'' = Some (True, TUnion [TNumber, TUndefined])"
    by (simp_all add: TableProps_def required_def optional_def)
  have names: "map fst minimal_table_props = [''width'', ''rowsCount'', ''rowHeight'', ''headerHeight'']"
    by (simp add: minimal_table_props_def required_def)
  have "satisfies R base minimal_table_props TableProps"
    if inh: "list_all is_optional (base (TRef ''React.ClassAttributes'' [TRef ''Table'' []]))"
  proof -
    have ext: "iextends TableProps = [TRef ''React.ClassAttributes'' [TRef ''Table'' []]]"
      by (simp add: TableProps_def)
    have "member_ok R minimal_table_props m"
      if m: "m \<in> set (base (TRef ''React.ClassAttributes'' [TRef ''Table'' []]))"
        and fresh: "fst m \<notin> set (map fst (imembers TableProps))" for m
    proof -
      from inh m have "is_optional m" by (simp add: list_all_iff)
      moreover from fresh have "map_of minimal_table_props (fst m) = None"
        using minimal_names by blast
      ultimately show ?thesis
        by (cases m) (simp add: member_ok_def is_optional_def)
    qed
    then have "list_all (member_ok R minimal_table_props)
        (filter (\<lambda>m. fst m \<notin> set (map fst (imembers TableProps)))
          (concat (map base (iextends TableProps))))"
      by (simp add: ext list_all_iff)
    with TableProps_minimal_own
    have "list_all (member_ok R minimal_table_props) (all_members base TableProps)"
      by (simp only: all_members_def list_all_append simp_thms)
    with TableProps_not_weak show ?thesis
      by (simp add: satisfies_iff)
  qed
  with decl names show ?thesis by blast
qed

text \<open>The instance of C8 at the example resolution of the React bases.\<close>

theorem C8_height_not_enforced_witness:
  "list_all is_optional (example_react (TRef ''React.ClassAttributes'' [TRef ''Table'' []]))
   \<and> satisfies same_name example_react minimal_table_props TableProps
   \<and> map_of minimal_table_props ''height'' = None
   \<and> map_of minimal_table_props ''maxHeight'' = None"
proof -
  have a: "list_all is_optional (example_react (TRef ''React.ClassAttributes'' [TRef ''Table'' []]))"
    by (simp add: example_react_def is_optional_def optional_def)
  have b: "map_of minimal_table_props ''height'' = None"
    "map_of minimal_table_props ''maxHeight'' = None"
    by (simp_all add: minimal_table_props_def required_def)
  from a b C8_height_not_enforced[where base = example_react and R = same_name] show ?thesis by blast
qed

text \<open>
  C9: a props object accepted for ResizeCellProps supplies \<open>onColumnResizeEnd\<close>, and
  one accepted for ReorderCellProps supplies \<open>onColumnReorderEnd\<close>: both members are
  declared required. The table-level \<open>onColumnResizeEndCallback\<close> and
  \<open>onColumnReorderEndCallback\<close> are declared optional, and so is every callback that
  TableProps declares.
\<close>

theorem C9_end_callbacks_mandatory:
  "(satisfies R base props ResizeCellProps \<longrightarrow> ''onColumnResizeEnd'' \<in> set (supplied_names props))
   \<and> (satisfies R base props ReorderCellProps \<longrightarrow>
        ''onColumnReorderEnd'' \<in> set (supplied_names props))
   \<and> map_of (imembers ResizeCellProps) ''onColumnResizeEnd''
       = Some (False, TFun [required ''newWidth'' TNumber, required ''columnKey'' TString] None TVoid)
   \<and> map_of (imembers ReorderCellProps) ''onColumnReorderEnd''
       = Some (False,
           TFun [required ''event''
                  (TObj [required ''columnBefore'' TString, required ''columnAfter'' TString,
                        required ''reorderColumn'' TString])] None TVoid)
   \<and> map_of (imembers TableProps) ''onColumnResizeEndCallback''
       = Some (True,
           TUnion [TFun [required ''newColumnWidth'' TNumber, required ''columnKey'' TString] None TVoid,
                   TUndefined])
   \<and> map_of (imembers TableProps) ''onColumnReorderEndCallback''
       = Some (True,
           TUnion [TFun [required ''event'' (object_type ColumnReorderEndEvent)] None TVoid, TUndefined])
   \<and> map fst (callbacks TableProps)
       = [''onHorizontalScroll'', ''onVerticalScroll'', ''rowHeightGetter'', ''subRowHeightGetter'',
          ''rowExpanded'', ''rowAttributesGetter'', ''rowClassNameGetter'', ''rowKeyGetter'',
          ''gridAttributesGetter'', ''onScrollStart'', ''onScrollEnd'', ''onContentHeightChange'',
          ''onRowClick'', ''onRowContextMenu'', ''onRowDoubleClick'', ''onRowMouseDown'',
          ''onRowMouseUp'', ''onRowMouseEnter'', ''onRowMouseLeave'', ''onRowTouchStart'',
          ''onRowTouchEnd'', ''onRowTouchMove'', ''onColumnResizeEndCallback'',
          ''onColumnReorderEndCallback'']
   \<and> list_all is_optional (callbacks TableProps)"
proof -
  note r1 = ResizeCellProps_end
  note r2 = ReorderCellProps_end
  have d1: "map_of (imembers ResizeCellProps) ''onColumnResizeEnd''
       = Some (False, TFun [required ''newWidth'' TNumber, required ''columnKey'' TString] None TVoid)"
    by (simp add: ResizeCellProps_def required_def optional_def)
  have d2: "map_of (imembers ReorderCellProps) ''onColumnReorderEnd''
       = Some (False,
           TFun [required ''event''
                  (TObj [required ''columnBefore'' TString, required ''columnAfter'' TString,
                        required ''reorderColumn'' TString])] None TVoid)"
    by (simp add: ReorderCellProps_def required_def optional_def)
  have d3: "map_of (imembers TableProps) ''onColumnResizeEndCallback''
       = Some (True,
           TUnion [TFun [required ''newColumnWidth'' TNumber, required ''columnKey'' TString] None TVoid,
                   TUndefined])"
    by (simp add: TableProps_def required_def optional_def)
  have d4: "map_of (imembers TableProps) ''onColumnReorderEndCallback''
       = Some (True,
           TUnion [TFun [required ''event'' (object_type ColumnReorderEndEvent)] None TVoid, TUndefined])"
    by (simp add: TableProps_def required_def optional_def)
  have cb: "map fst (callbacks TableProps)
       = [''onHorizontalScroll'', ''onVerticalScroll'', ''rowHeightGetter'', ''subRowHeightGetter'',
          ''rowExpanded'', ''rowAttributesGetter'', ''rowClassNameGetter'', ''rowKeyGetter'',
          ''gridAttributesGetter'', ''onScrollStart'', ''onScrollEnd'', ''onContentHeightChange'',
          ''onRowClick'', ''onRowContextMenu'', ''onRowDoubleClick'', ''onRowMouseDown'',
          ''onRowMouseUp'', ''onRowMouseEnter'', ''onRowMouseLeave'', ''onRowTouchStart'',
          ''onRowTouchEnd'', ''onRowTouchMove'', ''onColumnResizeEndCallback'',
          ''onColumnReorderEndCallback'']"
    by (simp add: callbacks_def TableProps_def required_def optional_def ElementOrFunc_def
        TableRowEventHandler_def AttributesGetterReturn_def)
  have opt: "list_all is_optional (callbacks TableProps)"
    by (simp add: callbacks_def TableProps_def required_def optional_def ElementOrFunc_def
        TableRowEventHandler_def AttributesGetterReturn_def is_optional_def)
  have s1: "satisfies R base props ResizeCellProps \<longrightarrow>
      ''onColumnResizeEnd'' \<in> set (supplied_names props)"
    using satisfies_supplies[OF _ r1, of R base props] by (rule impI)
  have s2: "satisfies R base props ReorderCellProps \<longrightarrow>
      ''onColumnReorderEnd'' \<in> set (supplied_names props)"
    using satisfies_supplies[OF _ r2, of R base props] by (rule impI)
  show ?thesis
    by (intro conjI s1 s2 d1 d2 d3 d4 cb opt)
qed

text \<open>
  The instance of C9 at the example props: both are accepted and supply the callback;
  the empty props object is rejected for both interfaces.
\<close>

theorem C9_end_callbacks_mandatory_witness:
  "satisfies same_name example_react example_resize_props ResizeCellProps
   \<and> ''onColumnResizeEnd'' \<in> set (supplied_names example_resize_props)
   \<and> satisfies same_name example_react example_reorder_props ReorderCellProps
   \<and> ''onColumnReorderEnd'' \<in> set (supplied_names example_reorder_props)
   \<and> \<not> satisfies same_name example_react [] ResizeCellProps
   \<and> \<not> satisfies same_name example_react [] ReorderCellProps"
proof -
  have a: "satisfies same_name example_react example_resize_props ResizeCellProps"
    using ResizeCellProps_not_weak[of example_react]
    by (simp add: satisfies_iff)
      (simp add: all_members_def example_react_def ResizeCellProps_def
        example_resize_props_def required_def optional_def member_ok_def value_fits_def
        min_args_def param_count_def positions_def param_type_def is_optional_def)
  have b: "satisfies same_name example_react example_reorder_props ReorderCellProps"
    using ReorderCellProps_not_weak[of example_react]
    by (simp add: satisfies_iff)
      (simp add: all_members_def example_react_def ReorderCellProps_def
        example_reorder_props_def required_def optional_def member_ok_def value_fits_def
        min_args_def param_count_def positions_def param_type_def is_optional_def)
  have c: "''onColumnResizeEnd'' \<in> set (supplied_names example_resize_props)"
    using mp[OF conjunct1[OF C9_end_callbacks_mandatory] a] .
  have d: "''onColumnReorderEnd'' \<in> set (supplied_names example_reorder_props)"
    using mp[OF conjunct1[OF conjunct2[OF C9_end_callbacks_mandatory]] b] .
  have e: "\<not> satisfies same_name example_react [] ResizeCellProps"
  proof
    assume "satisfies same_name example_react [] ResizeCellProps"
    then have "''onColumnResizeEnd'' \<in> set (supplied_names [])"
      by (rule mp[OF conjunct1[OF C9_end_callbacks_mandatory]])
    then show False by (simp add: supplied_names_def)
  qed
  have f: "\<not> satisfies same_name example_react [] ReorderCellProps"
  proof
    assume "satisfies same_name example_react [] ReorderCellProps"
    then have "''onColumnReorderEnd'' \<in> set (supplied_names [])"
      by (rule mp[OF conjunct1[OF conjunct2[OF C9_end_callbacks_mandatory]]])
    then show False by (simp add: supplied_names_def)
  qed
  show ?thesis
    by (intro conjI a b c d e f)
qed

text \<open>
  C10: the event type of \<open>TableProps.onColumnReorderEndCallback\<close> is
  ColumnReorderEndEvent, whose \<open>columnBefore\<close> and \<open>columnAfter\<close> are optional and may
  be undefined; the event type of \<open>ReorderCellProps.onColumnReorderEnd\<close> requires both
  to be strings. An event whose \<open>columnBefore\<close> is undefined provides \<open>columnBefore\<close> as
  the former declares it and not as the latter does, so it is not assignable to the
  latter; the example event is assignable to the former and not to the latter.
\<close>

theorem C10_reorder_events_disagree:
  "event_type TableProps ''onColumnReorderEndCallback'' = Some (object_type ColumnReorderEndEvent)
   \<and> object_type ColumnReorderEndEvent
       = TObj [optional ''columnBefore'' (TUnion [TString, TUndefined]),
               optional ''columnAfter'' (TUnion [TString, TUndefined]),
               required ''reorderColumn'' TString]
   \<and> event_type ReorderCellProps ''onColumnReorderEnd''
       = Some (TObj [required ''columnBefore'' TString, required ''columnAfter'' TString,
                     required ''reorderColumn'' TString])
   \<and> (map_of ev ''columnBefore'' = Some (opt, TUndefined) \<longrightarrow>
        member_ok R ev (optional ''columnBefore'' (TUnion [TString, TUndefined]))
        \<and> \<not> member_ok R ev (required ''columnBefore'' TString)
        \<and> \<not> assignable R (TObj ev)
             (TObj [required ''columnBefore'' TString, required ''columnAfter'' TString,
                    required ''reorderColumn'' TString]))
   \<and> assignable R (TObj example_event) (object_type ColumnReorderEndEvent)
   \<and> \<not> assignable R (TObj example_event)
        (TObj [required ''columnBefore'' TString, required ''columnAfter'' TString,
               required ''reorderColumn'' TString])"
proof -
  have obj: "object_type ColumnReorderEndEvent
       = TObj [optional ''columnBefore'' (TUnion [TString, TUndefined]),
               optional ''columnAfter'' (TUnion [TString, TUndefined]),
               required ''reorderColumn'' TString]"
    by (simp add: object_type_def all_members_def ColumnReorderEndEvent_def)
  have e1: "event_type TableProps ''onColumnReorderEndCallback''
      = Some (object_type ColumnReorderEndEvent)"
    by (simp add: event_type_def TableProps_def required_def optional_def obj)
  have e2: "event_type ReorderCellProps ''onColumnReorderEnd''
       = Some (TObj [required ''columnBefore'' TString, required ''columnAfter'' TString,
                     required ''reorderColumn'' TString])"
    by (simp add: event_type_def ReorderCellProps_def required_def optional_def)
  have g: "member_ok R ev (optional ''columnBefore'' (TUnion [TString, TUndefined]))
        \<and> \<not> member_ok R ev (required ''columnBefore'' TString)
        \<and> \<not> assignable R (TObj ev)
             (TObj [required ''columnBefore'' TString, required ''columnAfter'' TString,
                    required ''reorderColumn'' TString])"
    if "map_of ev ''columnBefore'' = Some (opt, TUndefined)"
    using that
    by (simp add: assignable_obj member_ok_def value_fits_def required_def optional_def)
  have x1: "assignable R (TObj example_event) (object_type ColumnReorderEndEvent)"
    by (simp add: obj assignable_obj member_ok_def value_fits_def required_def optional_def
        example_event_def weak_type_def is_optional_def)
  have x2: "\<not> assignable R (TObj example_event)
        (TObj [required ''columnBefore'' TString, required ''columnAfter'' TString,
               required ''reorderColumn'' TString])"
    by (simp add: assignable_obj member_ok_def value_fits_def required_def optional_def
        example_event_def)
  from g have g': "map_of ev ''columnBefore'' = Some (opt, TUndefined) \<longrightarrow>
        member_ok R ev (optional ''columnBefore'' (TUnion [TString, TUndefined]))
        \<and> \<not> member_ok R ev (required ''columnBefore'' TString)
        \<and> \<not> assignable R (TObj ev)
             (TObj [required ''columnBefore'' TString, required ''columnAfter'' TString,
                    required ''reorderColumn'' TString])"
    by (rule impI)
  show ?thesis
    by (intro conjI e1 obj e2 g' x1 x2)
qed

text \<open>The instance of C10 at the example event.\<close>

theorem C10_reorder_events_disagree_witness:
  "map_of example_event ''columnBefore'' = Some (False, TUndefined)
   \<and> member_ok same_name example_event (optional ''columnBefore'' (TUnion [TString, TUndefined]))
   \<and> \<not> member_ok same_name example_event (required ''columnBefore'' TString)
   \<and> \<not> assignable same_name (TObj example_event)
        (TObj [required ''columnBefore'' TString, required ''columnAfter'' TString,
               required ''reorderColumn'' TString])"
proof -
  have a: "map_of example_event ''columnBefore'' = Some (False, TUndefined)"
    by (simp add: example_event_def required_def)
  note main = C10_reorder_events_disagree[where R = same_name and ev = example_event]
  from mp[OF conjunct1[OF conjunct2[OF conjunct2[OF conjunct2[OF main]]]] a] a
  show ?thesis by (intro conjI) simp_all
qed

end
